theory Spec2Isabelle
  imports Main "HOL-Library.Word"
begin

section \<open>Errors\<close>

text \<open>
  Go's \<open>error\<close> interface, as the values this program builds or inspects. A
  message formatted with \<open>Errorf\<close> or \<open>Wrapf\<close> is a constructor holding the
  formatted arguments.

  Modelled from the spec: the error type \<open>lifecycle.Error\<close> and its types, the
  exit codes \<open>cmd.CodeInvalidArgs\<close>, \<open>cmd.CodeFailedBuildWithErrors\<close> and
  \<open>cmd.CodeBuildError\<close>, and the constructors \<open>cmd.FailErr\<close> and
  \<open>cmd.FailErrCode\<close> are declared in packages \<open>lifecycle\<close> and \<open>cmd\<close>.
  A lifecycle error carries a type (the buildpack type or another) and a cause; the codes
  are distinct and are kept as
  the names builder.go uses; a failure made by \<open>cmd.FailErrCode\<close> carries the
  cause, the code and the action, and one made by \<open>cmd.FailErr\<close>, which takes no
  code, is kept apart.
\<close>

datatype ErrorType = ErrTypeBuildpack | OtherErrorType string

datatype exit_code = CodeInvalidArgs | CodeFailedBuildWithErrors | CodeBuildError

datatype action =
    Action string \<comment> \<open>a literal action name\<close>
  | ExecAsUser int int \<comment> \<open>\<open>fmt.Sprintf("exec as user %d:%d", uid, gid)\<close>\<close>
  | SetEnvironmentFor int \<comment> \<open>\<open>fmt.Sprintf("set environment for user %d", uid)\<close>\<close>

datatype go_error =
    ErrorsNew string \<comment> \<open>\<open>errors.New(msg)\<close>\<close>
  | External string \<comment> \<open>an error of the operating system or of a library\<close>
  | ErrSyntax \<comment> \<open>\<open>strconv.ErrSyntax\<close>\<close>
  | ErrRange \<comment> \<open>\<open>strconv.ErrRange\<close>\<close>
  | CouldNotParseAsVersion string \<comment> \<open>version.go, line 30\<close>
  | ParsingMajor go_error string \<comment> \<open>version.go, line 40\<close>
  | ParsingMinor go_error string \<comment> \<open>version.go, line 48\<close>
  | CouldNotParseVersion string \<comment> \<open>version.go, line 52\<close>
  | InvalidApiVersion go_error string \<comment> \<open>version.go, line 73\<close>
  | IncompatibleBuildpackAPI string \<comment> \<open>cause of a failed version gate\<close>
  | LifecycleError ErrorType go_error \<comment> \<open>\<open>*lifecycle.Error\<close>: Type and Cause()\<close>
  | FailErr go_error "action list" \<comment> \<open>\<open>cmd.FailErr(err, action...)\<close>\<close>
  | FailErrCode go_error exit_code "action list" \<comment> \<open>\<open>cmd.FailErrCode(err, code, action...)\<close>\<close>

section \<open>api/version.go\<close>

record Version =
  Major :: "64 word"
  Minor :: "64 word"

subsection \<open>The regular expression\<close>

text \<open>
  \<^verbatim>\<open>var regex = regexp.MustCompile(`^v?(\d+)\.?(\d*)$`)\<close>

  In Go's syntax \<^verbatim>\<open>\d\<close> is an ASCII digit and, without the multi-line flag,
  \<^verbatim>\<open>$\<close> is the end of the text. The expression is anchored at both ends, so
  \<open>FindAllStringSubmatch\<close> returns no match or one match made of the whole text
  and the two groups. Every quantifier is greedy and each one is followed by something
  that cannot start with what it repeats, so the leftmost-first match is found by one
  scan from the left without backtracking.
\<close>

definition is_digit :: "char \<Rightarrow> bool" where
  "is_digit c = (48 \<le> (of_char c :: nat) \<and> (of_char c :: nat) \<le> 57)"

definition skip_char :: "char \<Rightarrow> string \<Rightarrow> string" where
  \<comment> \<open>an optional single character: \<^verbatim>\<open>v?\<close>, \<^verbatim>\<open>\.?\<close>\<close>
  "skip_char c s = (case s of [] \<Rightarrow> [] | x # r \<Rightarrow> if x = c then r else s)"

definition FindAllStringSubmatch :: "string \<Rightarrow> string list list" where
  "FindAllStringSubmatch v =
    (let s1 = skip_char CHR ''v'' v;
         g1 = takeWhile is_digit s1;
         s2 = skip_char CHR ''.'' (dropWhile is_digit s1);
         g2 = takeWhile is_digit s2
     in if g1 \<noteq> [] \<and> dropWhile is_digit s2 = [] then [[v, g1, g2]] else [])"

subsection \<open>strconv.ParseUint(s, 10, 64)\<close>

definition digit_val :: "char \<Rightarrow> nat" where
  "digit_val c = of_char c - 48"

definition maxVal :: nat where
  "maxVal = 2 ^ 64 - 1"

definition cutoff :: nat where
  "cutoff = maxVal div 10 + 1"

fun ParseUint_loop :: "nat \<Rightarrow> string \<Rightarrow> go_error + nat" where
  "ParseUint_loop n [] = Inr n"
| "ParseUint_loop n (c # cs) =
    (if \<not> is_digit c then Inl ErrSyntax
     else if n \<ge> cutoff then Inl ErrRange
     else if n * 10 + digit_val c > maxVal then Inl ErrRange
     else ParseUint_loop (n * 10 + digit_val c) cs)"

definition ParseUint :: "string \<Rightarrow> go_error + 64 word" where
  "ParseUint s =
    (if s = [] then Inl ErrSyntax
     else case ParseUint_loop 0 s of Inl e \<Rightarrow> Inl e | Inr n \<Rightarrow> Inr (of_nat n))"

subsection \<open>NewVersion, UnmarshalText\<close>

definition NewVersion :: "string \<Rightarrow> go_error + Version" where
  "NewVersion v =
    (case FindAllStringSubmatch v of
       [] \<Rightarrow> Inl (CouldNotParseAsVersion v)
     | m # _ \<Rightarrow>
        (case m of
           [_, g1, g2] \<Rightarrow>
             (case ParseUint g1 of
                Inl err \<Rightarrow> Inl (ParsingMajor err g1)
              | Inr major \<Rightarrow>
                 if g2 = [] then Inr \<lparr>Major = major, Minor = 0\<rparr>
                 else (case ParseUint g2 of
                         Inl err \<Rightarrow> Inl (ParsingMinor err g2)
                       | Inr minor \<Rightarrow> Inr \<lparr>Major = major, Minor = minor\<rparr>))
         | _ \<Rightarrow> Inl (CouldNotParseVersion v)))"

text \<open>
  \<open>UnmarshalText\<close> writes through its receiver: the model takes the value the
  receiver points to and returns the error (\<open>None\<close> for nil) with the value
  afterwards.
\<close>

definition UnmarshalText :: "Version \<Rightarrow> string \<Rightarrow> go_error option \<times> Version" where
  "UnmarshalText v text =
    (case NewVersion text of
       Inl err \<Rightarrow> (Some (InvalidApiVersion err text), v)
     | Inr parsedVersion \<Rightarrow>
         (None, v\<lparr>Major := Major parsedVersion, Minor := Minor parsedVersion\<rparr>))"

subsection \<open>Compare, Equal, IsSupersetOf\<close>

definition Compare :: "Version \<Rightarrow> Version \<Rightarrow> int" where
  "Compare v o' =
    (if Major v \<noteq> Major o' \<and> Major v < Major o' then -1
     else if Major v \<noteq> Major o' \<and> Major v > Major o' then 1
     else if Minor v \<noteq> Minor o' \<and> Minor v < Minor o' then -1
     else if Minor v \<noteq> Minor o' \<and> Minor v > Minor o' then 1
     else 0)"

definition Equal :: "Version \<Rightarrow> Version \<Rightarrow> bool" where
  "Equal v o' = (Compare v o' = 0)"

definition IsSupersetOf :: "Version \<Rightarrow> Version \<Rightarrow> bool" where
  "IsSupersetOf v o' =
    (if Major v = 0 then Equal v o'
     else Major v = Major o' \<and> Minor v \<ge> Minor o')"

text \<open>
  The number a string of digits denotes, for stating what \<open>ParseUint\<close> returns.
\<close>

definition digits_val :: "string \<Rightarrow> nat" where
  "digits_val s = foldl (\<lambda>n c. n * 10 + digit_val c) 0 s"

section \<open>cmd/lifecycle/builder.go\<close>

subsection \<open>Data\<close>

text \<open>
  Modelled from the spec: \<open>lifecycle.BuildpackGroup\<close>, \<open>lifecycle.BuildPlan\<close> and
  the build metadata are declared in package \<open>lifecycle\<close>. A group is an ordered
  sequence of plugin descriptors, each an identifier and a declared API version; the plan
  and the metadata are opaque documents.
\<close>

record Buildpack =
  ID :: string
  API :: Version

record BuildpackGroup =
  Group :: "Buildpack list"

datatype BuildPlan = BuildPlan string

datatype BuildMetadata = BuildMetadata string

record buildArgs =
  uid :: int
  gid :: int
  groupPath :: string
  planPath :: string
  buildpacksDir :: string
  layersDir :: string
  appDir :: string
  platformDir :: string
  platformAPI :: string

record buildCmd = buildArgs +
  stackGroupPath :: string

text \<open>
  \<open>lifecycle.Builder\<close>, with the fields \<open>createBuilder\<close> fills from its arguments.
  The environment, the two loggers and the snapshotter are handles on the outside world
  and are left out.
\<close>

record Builder =
  AppDir :: string
  LayersDir :: string
  PlatformDir :: string
  BuildpacksDir :: string
  PlatformAPI :: Version
  Group_B :: BuildpackGroup
  StackGroup :: BuildpackGroup
  Plan :: BuildPlan

text \<open>
  The child process of \<open>buildAsSubProcess\<close>. Paths and flags are kept as the
  expressions that build them: \<open>filepath.Join(filepath.Dir(exe), "builder")\<close> and
  \<open>fmt.Sprintf("-%s", cmd.FlagNameGroupPath)\<close>.
\<close>

datatype filepath = Dir string | Join filepath string

datatype flag_name = FlagNameGroupPath | FlagNamePlanPath

datatype arg = Flag flag_name | Val string

record Credential =
  Uid :: "32 word"
  Gid :: "32 word"

record Cmd =
  Path :: filepath
  CmdArgs :: "arg list"
  SysProcAttr_Credential :: Credential

datatype metadata_path = GetMetadataFilePath string
  \<comment> \<open>\<open>launch.GetMetadataFilePath(layersDir)\<close>\<close>

subsection \<open>The outside world\<close>

text \<open>
  What the program reads and calls outside itself, as the parameters of one invocation:
  the files, the decoders of the two kinds of document, whether the process is root
  (\<open>priv.IsPrivileged\<close>), the API version the lifecycle supports, and the result
  of each call to a collaborator declared outside builder.go: the snapshotter's
  constructor, \<open>Builder.StackBuild\<close>, \<open>Builder.Build\<close>, \<open>os.Executable\<close>,
  \<open>exec.Cmd.Run\<close>, \<open>priv.RunAs\<close>, \<open>priv.SetEnvironmentForUser\<close> and
  \<open>lifecycle.WriteTOML\<close> (\<open>None\<close> is a nil error). Every such call is made at
  most once in an invocation, so its result depends on its arguments only.
\<close>

record world =
  files :: "string \<Rightarrow> string option"
  decode_group :: "string \<Rightarrow> go_error + BuildpackGroup"
  decode_plan :: "string \<Rightarrow> go_error + BuildPlan"
  IsPrivileged :: bool
  supportedAPI :: Version
  NewKanikoSnapshotter :: "string \<Rightarrow> go_error option"
  StackBuild :: "Builder \<Rightarrow> go_error option"
  Build :: "Builder \<Rightarrow> go_error + BuildMetadata"
  Executable :: "go_error + string"
  CmdRun :: "Cmd \<Rightarrow> go_error option"
  RunAs :: "int \<Rightarrow> int \<Rightarrow> go_error option"
  SetEnvironmentForUser :: "int \<Rightarrow> go_error option"
  WriteTOML :: "metadata_path \<Rightarrow> BuildMetadata \<Rightarrow> go_error option"

text \<open>
  The calls a function made, in order. Reading a file is not recorded.
\<close>

datatype event =
    EvNewKanikoSnapshotter string
  | EvStackBuild Builder
  | EvExecutable
  | EvRun Cmd
  | EvRunAs int int
  | EvSetEnvironmentForUser int
  | EvBuild Builder
  | EvWriteTOML metadata_path BuildMetadata

text \<open>
  How a call ends: it returns a value (\<open>OK ()\<close> where Go returns a nil error), returns
  an error, or panics.
\<close>

datatype 'a res = OK 'a | Fail go_error | Panic go_error

subsection \<open>Reading the inputs\<close>

definition Stat :: "world \<Rightarrow> string \<Rightarrow> bool" where
  \<comment> \<open>\<open>_, err := os.Stat(path); err == nil\<close>\<close>
  "Stat w path = (files w path \<noteq> None)"

text \<open>
  Modelled from the spec: \<open>lifecycle.ReadGroup\<close> is declared in package
  \<open>lifecycle\<close>; it decodes the group document at a path, as \<open>toml.DecodeFile\<close>
  does for the plan. Neither can read a file that is not there.
\<close>

definition ReadGroup :: "world \<Rightarrow> string \<Rightarrow> go_error + BuildpackGroup" where
  "ReadGroup w path =
    (case files w path of None \<Rightarrow> Inl (External ''no such file'') | Some c \<Rightarrow> decode_group w c)"

definition DecodeFile :: "world \<Rightarrow> string \<Rightarrow> go_error + BuildPlan" where
  "DecodeFile w path =
    (case files w path of None \<Rightarrow> Inl (External ''no such file'') | Some c \<Rightarrow> decode_plan w c)"

definition empty_group :: BuildpackGroup where
  \<comment> \<open>\<open>lifecycle.BuildpackGroup{}\<close>\<close>
  "empty_group = \<lparr>Group = []\<rparr>"

definition empty_plan :: BuildPlan where
  \<comment> \<open>\<open>lifecycle.BuildPlan{}\<close>\<close>
  "empty_plan = BuildPlan []"

definition readData ::
  "world \<Rightarrow> 'a buildCmd_scheme \<Rightarrow> BuildpackGroup \<times> BuildpackGroup \<times> BuildPlan \<times> go_error option"
where
  "readData w b =
    (case (if Stat w (groupPath b) then ReadGroup w (groupPath b) else Inr empty_group) of
       Inl err \<Rightarrow>
         (empty_group, empty_group, empty_plan,
          Some (FailErr err [Action ''read buildpack group'']))
     | Inr group' \<Rightarrow>
        (case (if Stat w (stackGroupPath b) then ReadGroup w (stackGroupPath b)
               else Inr empty_group) of
           Inl err \<Rightarrow>
             (group', empty_group, empty_plan,
              Some (FailErr err [Action ''read stack buildpack group'']))
         | Inr stackGroup \<Rightarrow>
            (case DecodeFile w (planPath b) of
               Inl err \<Rightarrow>
                 (empty_group, empty_group, empty_plan,
                  Some (FailErr err [Action ''parse detect plan'']))
             | Inr plan \<Rightarrow> (group', stackGroup, plan, None))))"

subsection \<open>The version gate\<close>

text \<open>
  Modelled from the spec: \<open>verifyBuildpackApis\<close> is declared elsewhere in package
  \<open>main\<close>. It runs the compatibility rule against every plugin of the group, in
  order; the first plugin whose declared API the supported API is not a superset of
  makes it fail with the invalid-arguments classification.
\<close>

primrec verify_each :: "Version \<Rightarrow> Buildpack list \<Rightarrow> go_error option" where
  "verify_each supported [] = None"
| "verify_each supported (bp # bps) =
    (if IsSupersetOf supported (API bp) then verify_each supported bps
     else Some (FailErrCode (IncompatibleBuildpackAPI (ID bp)) CodeInvalidArgs []))"

definition verifyBuildpackApis :: "world \<Rightarrow> BuildpackGroup \<Rightarrow> go_error option" where
  "verifyBuildpackApis w group' = verify_each (supportedAPI w) (Group group')"

subsection \<open>The build stages\<close>

definition MustParse :: "string \<Rightarrow> Version res" where
  "MustParse v = (case NewVersion v of Inl err \<Rightarrow> Panic err | Inr version \<Rightarrow> OK version)"

definition createBuilder ::
  "world \<Rightarrow> 'a buildArgs_scheme \<Rightarrow> BuildpackGroup \<Rightarrow> BuildpackGroup \<Rightarrow> BuildPlan \<Rightarrow>
   Builder res \<times> event list"
where
  "createBuilder w ba group' stackGroup plan =
    (case NewKanikoSnapshotter w ''/'' of
       Some err \<Rightarrow> (Fail err, [EvNewKanikoSnapshotter ''/''])
     | None \<Rightarrow>
        (case MustParse (platformAPI ba) of
           Panic err \<Rightarrow> (Panic err, [EvNewKanikoSnapshotter ''/''])
         | Fail err \<Rightarrow> (Fail err, [EvNewKanikoSnapshotter ''/''])
         | OK version \<Rightarrow>
            (OK \<lparr>AppDir = appDir ba, LayersDir = layersDir ba, PlatformDir = platformDir ba,
                 BuildpacksDir = buildpacksDir ba, PlatformAPI = version, Group_B = group',
                 StackGroup = stackGroup, Plan = plan\<rparr>,
             [EvNewKanikoSnapshotter ''/''])))"

definition stackBuild :: "world \<Rightarrow> Builder \<Rightarrow> unit res \<times> event list" where
  "stackBuild w builder =
    (case StackBuild w builder of
       None \<Rightarrow> (OK (), [EvStackBuild builder])
     | Some err \<Rightarrow>
        (Fail (case err of
                 LifecycleError t cause \<Rightarrow>
                   if t = ErrTypeBuildpack
                   then FailErrCode cause CodeFailedBuildWithErrors [Action ''stack-build'']
                   else FailErrCode err CodeBuildError [Action ''stack-build'']
               | _ \<Rightarrow> FailErrCode err CodeBuildError [Action ''stack-build'']),
         [EvStackBuild builder]))"

definition buildAsSubProcess :: "world \<Rightarrow> 'a buildArgs_scheme \<Rightarrow> unit res \<times> event list" where
  "buildAsSubProcess w ba =
    (case Executable w of
       Inl err \<Rightarrow> (Fail err, [EvExecutable])
     | Inr exe \<Rightarrow>
        (let c = \<lparr>Path = Join (Dir exe) ''builder'',
                  CmdArgs = [Flag FlagNameGroupPath, Val (groupPath ba),
                             Flag FlagNamePlanPath, Val (planPath ba)],
                  SysProcAttr_Credential =
                    \<lparr>Uid = word_of_int (uid ba), Gid = word_of_int (gid ba)\<rparr>\<rparr>
         in (case CmdRun w c of
               None \<Rightarrow> (OK (), [EvExecutable, EvRun c])
             | Some err \<Rightarrow> (Fail err, [EvExecutable, EvRun c]))))"

definition build :: "world \<Rightarrow> 'a buildArgs_scheme \<Rightarrow> Builder \<Rightarrow> unit res \<times> event list" where
  "build w ba builder =
    (case RunAs w (uid ba) (gid ba) of
       Some err \<Rightarrow>
         (Fail (FailErr err [ExecAsUser (uid ba) (gid ba)]), [EvRunAs (uid ba) (gid ba)])
     | None \<Rightarrow>
        (case SetEnvironmentForUser w (uid ba) of
           Some err \<Rightarrow>
             (Fail (FailErr err [SetEnvironmentFor (uid ba)]),
              [EvRunAs (uid ba) (gid ba), EvSetEnvironmentForUser (uid ba)])
         | None \<Rightarrow>
            (case Build w builder of
               Inl err \<Rightarrow>
                 (Fail (case err of
                          LifecycleError t cause \<Rightarrow>
                            if t = ErrTypeBuildpack
                            then FailErrCode cause CodeFailedBuildWithErrors [Action ''build'']
                            else FailErrCode err CodeBuildError [Action ''build'']
                        | _ \<Rightarrow> FailErrCode err CodeBuildError [Action ''build'']),
                  [EvRunAs (uid ba) (gid ba), EvSetEnvironmentForUser (uid ba),
                   EvBuild builder])
             | Inr md \<Rightarrow>
                (case WriteTOML w (GetMetadataFilePath (layersDir ba)) md of
                   Some err \<Rightarrow>
                     (Fail (FailErr err [Action ''write build metadata'']),
                      [EvRunAs (uid ba) (gid ba), EvSetEnvironmentForUser (uid ba),
                       EvBuild builder, EvWriteTOML (GetMetadataFilePath (layersDir ba)) md])
                 | None \<Rightarrow>
                     (OK (),
                      [EvRunAs (uid ba) (gid ba), EvSetEnvironmentForUser (uid ba),
                       EvBuild builder,
                       EvWriteTOML (GetMetadataFilePath (layersDir ba)) md])))))"

definition buildAll ::
  "world \<Rightarrow> 'a buildArgs_scheme \<Rightarrow> BuildpackGroup \<Rightarrow> BuildpackGroup \<Rightarrow> BuildPlan \<Rightarrow>
   unit res \<times> event list"
where
  "buildAll w ba group' stackGroup plan =
    (case verifyBuildpackApis w group' of
       Some err \<Rightarrow> (Fail err, [])
     | None \<Rightarrow>
        (case verifyBuildpackApis w stackGroup of
           Some err \<Rightarrow> (Fail err, [])
         | None \<Rightarrow>
            (case createBuilder w ba group' stackGroup plan of
               (Fail err, t1) \<Rightarrow> (Fail err, t1)
             | (Panic err, t1) \<Rightarrow> (Panic err, t1)
             | (OK builder, t1) \<Rightarrow>
                (case stackBuild w builder of
                   (Fail err, t2) \<Rightarrow> (Fail err, t1 @ t2)
                 | (Panic err, t2) \<Rightarrow> (Panic err, t1 @ t2)
                 | (OK _, t2) \<Rightarrow>
                    if length (Group group') > 0
                    then (case buildAsSubProcess w ba of (r, t3) \<Rightarrow> (r, t1 @ t2 @ t3))
                    else (OK (), t1 @ t2)))))"

subsection \<open>The command\<close>

definition Args :: "'a buildCmd_scheme \<Rightarrow> nat \<Rightarrow> string list \<Rightarrow> go_error option" where
  "Args b nargs args =
    (if nargs \<noteq> 0
     then Some (FailErrCode (ErrorsNew ''received unexpected arguments'') CodeInvalidArgs
                  [Action ''parse arguments''])
     else None)"

definition Privileges :: "world \<Rightarrow> 'a buildCmd_scheme \<Rightarrow> go_error option" where
  "Privileges w b =
    (case readData w b of
       (_, stackGroup, _, Some err) \<Rightarrow> Some err
     | (_, stackGroup, _, None) \<Rightarrow>
         if length (Group stackGroup) = 0 \<and> IsPrivileged w
         then Some (FailErr (ErrorsNew ''refusing to run as root'') [Action ''build''])
         else None)"

definition Exec :: "world \<Rightarrow> 'a buildCmd_scheme \<Rightarrow> unit res \<times> event list" where
  "Exec w b =
    (case readData w b of
       (group', stackGroup, plan, Some err) \<Rightarrow> (Fail err, [])
     | (group', stackGroup, plan, None) \<Rightarrow>
         if length (Group stackGroup) > 0 then buildAll w b group' stackGroup plan
         else buildAsSubProcess w b)"

text \<open>
  Modelled from the spec: the driver of a command is declared in package \<open>cmd\<close>. The
  orchestrator's states follow one another: the arguments are checked, then the privilege
  guard, then the command executes; the first error is terminal.
\<close>

definition Run :: "world \<Rightarrow> 'a buildCmd_scheme \<Rightarrow> nat \<Rightarrow> string list \<Rightarrow> unit res \<times> event list" where
  "Run w b nargs args =
    (case Args b nargs args of
       Some err \<Rightarrow> (Fail err, [])
     | None \<Rightarrow>
        (case Privileges w b of
           Some err \<Rightarrow> (Fail err, [])
         | None \<Rightarrow> Exec w b))"

subsection \<open>Reading a trace\<close>

fun is_stack_build :: "event \<Rightarrow> bool" where
  "is_stack_build (EvStackBuild _) = True"
| "is_stack_build _ = False"

text \<open>
  The app plugins run in \<open>Builder.Build\<close>, in this process or in the child process
  the delegate starts.
\<close>

fun is_app_build :: "event \<Rightarrow> bool" where
  "is_app_build (EvBuild _) = True"
| "is_app_build (EvRun _) = True"
| "is_app_build _ = False"

fun is_subprocess :: "event \<Rightarrow> bool" where
  "is_subprocess (EvRun _) = True"
| "is_subprocess _ = False"

fun is_privilege_drop :: "event \<Rightarrow> bool" where
  "is_privilege_drop (EvRunAs _ _) = True"
| "is_privilege_drop _ = False"

definition is_plugin_execution :: "event \<Rightarrow> bool" where
  "is_plugin_execution e = (is_stack_build e \<or> is_app_build e)"

fun exit_code_of :: "unit res \<Rightarrow> exit_code option" where
  "exit_code_of (Fail (FailErrCode _ code _)) = Some code"
| "exit_code_of _ = None"

fun is_plugin_error :: "go_error \<Rightarrow> bool" where
  \<comment> \<open>a \<open>*lifecycle.Error\<close> of type \<open>ErrTypeBuildpack\<close>\<close>
  "is_plugin_error (LifecycleError t _) = (t = ErrTypeBuildpack)"
| "is_plugin_error _ = False"

subsection \<open>Example invocations\<close>

text \<open>
  Concrete inputs on which the functions above are evaluated: an app group and a stack
  group of one plugin each, a world in which both group files and the plan file are
  there and every collaborator succeeds, and a command line.
\<close>

definition example_app_group :: BuildpackGroup where
  "example_app_group = \<lparr>Group = [\<lparr>ID = ''example/app'', API = \<lparr>Major = 0, Minor = 4\<rparr>\<rparr>]\<rparr>"

definition example_stack_group :: BuildpackGroup where
  "example_stack_group = \<lparr>Group = [\<lparr>ID = ''example/stack'', API = \<lparr>Major = 0, Minor = 4\<rparr>\<rparr>]\<rparr>"

definition example_files :: "string \<Rightarrow> string option" where
  "example_files path =
    (if path = ''/layers/group.toml'' then Some ''app''
     else if path = ''/layers/stack-group.toml'' then Some ''stack''
     else if path = ''/layers/plan.toml'' then Some ''plan''
     else None)"

definition files_without_stack_group :: "string \<Rightarrow> string option" where
  "files_without_stack_group path =
    (if path = ''/layers/group.toml'' then Some ''app''
     else if path = ''/layers/plan.toml'' then Some ''plan''
     else None)"

definition files_plan_only :: "string \<Rightarrow> string option" where
  "files_plan_only path = (if path = ''/layers/plan.toml'' then Some ''plan'' else None)"

definition files_malformed_group :: "string \<Rightarrow> string option" where
  "files_malformed_group path =
    (if path = ''/layers/group.toml'' then Some ''garbage''
     else if path = ''/layers/plan.toml'' then Some ''plan''
     else None)"

definition example_world :: world where
  "example_world =
    \<lparr>files = example_files,
     decode_group = (\<lambda>c. if c = ''app'' then Inr example_app_group
                          else if c = ''stack'' then Inr example_stack_group
                          else Inl (External ''malformed group'')),
     decode_plan = (\<lambda>c. if c = ''plan'' then Inr (BuildPlan c)
                         else Inl (External ''malformed plan'')),
     IsPrivileged = True,
     supportedAPI = \<lparr>Major = 0, Minor = 4\<rparr>,
     NewKanikoSnapshotter = (\<lambda>_. None),
     StackBuild = (\<lambda>_. None),
     Build = (\<lambda>_. Inr (BuildMetadata ''metadata'')),
     Executable = Inr ''/cnb/lifecycle/builder'',
     CmdRun = (\<lambda>_. None),
     RunAs = (\<lambda>_ _. None),
     SetEnvironmentForUser = (\<lambda>_. None),
     WriteTOML = (\<lambda>_ _. None)\<rparr>"

definition example_cmd :: buildCmd where
  "example_cmd =
    \<lparr>uid = 1000, gid = 1000, groupPath = ''/layers/group.toml'',
     planPath = ''/layers/plan.toml'', buildpacksDir = ''/cnb/buildpacks'',
     layersDir = ''/layers'', appDir = ''/workspace'', platformDir = ''/platform'',
     platformAPI = ''0.3'', stackGroupPath = ''/layers/stack-group.toml''\<rparr>"

definition example_builder :: Builder where
  "example_builder =
    \<lparr>AppDir = ''/workspace'', LayersDir = ''/layers'', PlatformDir = ''/platform'',
     BuildpacksDir = ''/cnb/buildpacks'', PlatformAPI = \<lparr>Major = 0, Minor = 3\<rparr>,
     Group_B = example_app_group, StackGroup = example_stack_group,
     Plan = BuildPlan ''plan''\<rparr>"

definition example_child :: Cmd where
  "example_child =
    \<lparr>Path = Join (Dir ''/cnb/lifecycle/builder'') ''builder'',
     CmdArgs = [Flag FlagNameGroupPath, Val ''/layers/group.toml'',
                Flag FlagNamePlanPath, Val ''/layers/plan.toml''],
     SysProcAttr_Credential = \<lparr>Uid = 1000, Gid = 1000\<rparr>\<rparr>"

text \<open>The same world for an unprivileged process that finds no stack group file.\<close>

definition unprivileged_world :: world where
  "unprivileged_world = example_world\<lparr>files := files_without_stack_group, IsPrivileged := False\<rparr>"

text \<open>
  The unprivileged world again, where the lifecycle supports API 0.2 only: the plugin of
  the app group, which declares 0.4, is not compatible.
\<close>

definition incompatible_world :: world where
  "incompatible_world = unprivileged_world\<lparr>supportedAPI := \<lparr>Major = 0, Minor = 2\<rparr>\<rparr>"

definition plugin_failure :: go_error where
  "plugin_failure = LifecycleError ErrTypeBuildpack (External ''exit status 1'')"

definition io_failure :: go_error where
  "io_failure = External ''input/output error''"

section \<open>Properties of api/version.go\<close>

subsection \<open>ParseUint on a string of digits\<close>

lemma foldl_digits_ge: "n \<le> foldl (\<lambda>n c. n * 10 + digit_val c) n s"
proof (induction s arbitrary: n)
  case Nil
  show ?case by simp
next
  case (Cons c cs)
  have "n \<le> n * 10 + digit_val c" by simp
  also have "\<dots> \<le> foldl (\<lambda>n c. n * 10 + digit_val c) (n * 10 + digit_val c) cs"
    by (rule Cons.IH)
  finally show ?case by simp
qed

lemma cutoff_times_10: "n \<ge> cutoff \<Longrightarrow> n * 10 + d > maxVal"
  by (simp add: cutoff_def maxVal_def)

lemma ParseUint_loop_digits:
  "list_all is_digit s \<Longrightarrow> n \<le> maxVal \<Longrightarrow>
   ParseUint_loop n s =
     (if foldl (\<lambda>n c. n * 10 + digit_val c) n s \<le> maxVal
      then Inr (foldl (\<lambda>n c. n * 10 + digit_val c) n s) else Inl ErrRange)"
proof (induction s arbitrary: n)
  case Nil
  then show ?case by simp
next
  case (Cons c cs)
  let ?n1 = "n * 10 + digit_val c"
  have ge: "?n1 \<le> foldl (\<lambda>n c. n * 10 + digit_val c) ?n1 cs"
    by (rule foldl_digits_ge)
  from Cons.prems have d: "is_digit c" and ds: "list_all is_digit cs" by simp_all
  show ?case
  proof (cases "n \<ge> cutoff \<or> ?n1 > maxVal")
    case True
    then have "?n1 > maxVal" using cutoff_times_10 by blast
    with ge True d show ?thesis by auto
  next
    case False
    with d Cons.IH [OF ds, of ?n1] show ?thesis by simp
  qed
qed


lemma ParseUint_digits:
  "s \<noteq> [] \<Longrightarrow> list_all is_digit s \<Longrightarrow>
   ParseUint s = (if digits_val s \<le> maxVal then Inr (of_nat (digits_val s)) else Inl ErrRange)"
  by (simp add: ParseUint_def digits_val_def ParseUint_loop_digits)

lemma skip_char_cases: "s = skip_char c s \<or> s = c # skip_char c s"
  by (cases s) (auto simp: skip_char_def)

lemma not_digit_v: "\<not> is_digit CHR ''v''" and not_digit_dot: "\<not> is_digit CHR ''.''"
  by (simp_all add: is_digit_def)

lemma takeWhile_all: "list_all P xs \<Longrightarrow> takeWhile P (xs @ ys) = xs @ takeWhile P ys"
  by (simp add: list_all_iff)

lemma dropWhile_all: "list_all P xs \<Longrightarrow> dropWhile P (xs @ ys) = dropWhile P ys"
  by (simp add: list_all_iff)

lemma submatch_complete:
  assumes p: "p = [] \<or> p = ''v''"
    and g1: "g1 \<noteq> []" "list_all is_digit g1"
    and r: "d = [] \<and> g2 = [] \<or> d = ''.'' \<and> list_all is_digit g2"
  shows "FindAllStringSubmatch (p @ g1 @ d @ g2) = [[p @ g1 @ d @ g2, g1, g2]]"
proof -
  from g1 have hd1: "is_digit (hd g1)" by (cases g1) simp_all
  have s1: "skip_char CHR ''v'' (p @ g1 @ d @ g2) = g1 @ d @ g2"
  proof (cases "p = []")
    case True
    with g1 hd1 not_digit_v show ?thesis
      by (cases g1) (auto simp: skip_char_def)
  next
    case False
    with p show ?thesis by (simp add: skip_char_def)
  qed
  from r show ?thesis
  proof
    assume "d = [] \<and> g2 = []"
    then have e: "d = []" "g2 = []" by simp_all
    have t1: "takeWhile is_digit g1 = g1" "dropWhile is_digit g1 = []"
      using g1(2) by (simp_all add: list_all_iff)
    have s2: "skip_char CHR ''.'' [] = []"
      by (simp add: skip_char_def)
    show ?thesis
      using g1(1) s1 by (simp add: FindAllStringSubmatch_def Let_def e t1 s2)
  next
    assume d: "d = ''.'' \<and> list_all is_digit g2"
    then have g2: "list_all is_digit g2" by simp
    have t1: "takeWhile is_digit (g1 @ d @ g2) = g1"
      using takeWhile_all [OF g1(2), of "d @ g2"] d not_digit_dot by simp
    have d1: "dropWhile is_digit (g1 @ d @ g2) = d @ g2"
      using dropWhile_all [OF g1(2), of "d @ g2"] d not_digit_dot by simp
    have s2: "skip_char CHR ''.'' (d @ g2) = g2"
      using d by (simp add: skip_char_def)
    have t2: "takeWhile is_digit g2 = g2" "dropWhile is_digit g2 = []"
      using g2 by (simp_all add: list_all_iff)
    show ?thesis
      using g1(1) g2 by (simp add: FindAllStringSubmatch_def Let_def s1 t1 d1 s2 t2 list_all_iff)
  qed
qed

lemma submatch_sound:
  assumes "FindAllStringSubmatch s = m # ms"
  shows "\<exists>p g1 d g2. s = p @ g1 @ d @ g2 \<and> (p = [] \<or> p = ''v'') \<and> g1 \<noteq> [] \<and>
           list_all is_digit g1 \<and> (d = [] \<and> g2 = [] \<or> d = ''.'' \<and> list_all is_digit g2) \<and>
           m = [s, g1, g2] \<and> ms = []"
proof -
  define s1 where "s1 = skip_char CHR ''v'' s"
  define g1 where "g1 = takeWhile is_digit s1"
  define r1 where "r1 = dropWhile is_digit s1"
  define s2 where "s2 = skip_char CHR ''.'' r1"
  define g2 where "g2 = takeWhile is_digit s2"
  have F: "FindAllStringSubmatch s =
      (if g1 \<noteq> [] \<and> dropWhile is_digit s2 = [] then [[s, g1, g2]] else [])"
    unfolding FindAllStringSubmatch_def Let_def s1_def g1_def r1_def s2_def g2_def ..
  have c: "g1 \<noteq> [] \<and> dropWhile is_digit s2 = []"
  proof (rule ccontr)
    assume "\<not> ?thesis"
    then have "FindAllStringSubmatch s = []" by (simp only: F if_False)
    with assms show False by simp
  qed
  then have ok: "g1 \<noteq> []" "dropWhile is_digit s2 = []" by blast+
  from c F assms have m: "m = [s, g1, g2]" "ms = []" by simp_all
  have s2g2: "g2 = s2"
    using ok(2) by (simp add: g2_def)
  have dg1: "list_all is_digit g1" and dg2: "list_all is_digit g2"
    by (auto simp: g1_def g2_def list_all_iff dest: set_takeWhileD)
  have s1eq: "s1 = g1 @ r1"
    by (simp add: g1_def r1_def)
  have "s = [] @ s1 \<or> s = ''v'' @ s1"
    using skip_char_cases [of s "CHR ''v''"] by (simp add: s1_def)
  then obtain p where p: "s = p @ s1" "p = [] \<or> p = ''v''"
    by blast
  have "r1 = s2 \<or> r1 = CHR ''.'' # s2"
    using skip_char_cases [of r1 "CHR ''.''"] by (simp add: s2_def)
  then show ?thesis
  proof
    assume e: "r1 = s2"
    have "g2 = []"
    proof (cases r1)
      case Nil
      with e s2g2 show ?thesis by simp
    next
      case (Cons x xs)
      then have "\<not> is_digit (hd r1)"
        unfolding r1_def using hd_dropWhile [of is_digit s1] by simp
      with Cons e show ?thesis by (simp add: g2_def)
    qed
    with e s2g2 have "r1 = []" by simp
    with p s1eq have "s = p @ g1 @ [] @ []" by simp
    with p ok dg1 m \<open>g2 = []\<close> show ?thesis by blast
  next
    assume e: "r1 = CHR ''.'' # s2"
    have "s = p @ g1 @ ''.'' @ g2" using p s1eq e s2g2 by simp
    with p ok dg1 dg2 m show ?thesis by blast
  qed
qed



lemmas NewVersion_eval =
  NewVersion_def FindAllStringSubmatch_def skip_char_def is_digit_def ParseUint_def
  digit_val_def maxVal_def cutoff_def Let_def

lemma NewVersion_decomposed:
  "NewVersion s = Inr ver \<longleftrightarrow>
    (\<exists>p g1 d g2. s = p @ g1 @ d @ g2 \<and> (p = [] \<or> p = ''v'') \<and> g1 \<noteq> [] \<and>
       list_all is_digit g1 \<and> (d = [] \<and> g2 = [] \<or> d = ''.'' \<and> list_all is_digit g2) \<and>
       digits_val g1 < 2 ^ 64 \<and> digits_val g2 < 2 ^ 64 \<and>
       ver = \<lparr>Major = of_nat (digits_val g1), Minor = of_nat (digits_val g2)\<rparr>)"
  (is "?L \<longleftrightarrow> ?R")
proof
  assume L: ?L
  then obtain m ms where f: "FindAllStringSubmatch s = m # ms"
    by (cases "FindAllStringSubmatch s") (simp_all add: NewVersion_def)
  from submatch_sound [OF f] obtain p g1 d g2 where
    dec: "s = p @ g1 @ d @ g2" "p = [] \<or> p = ''v''" "g1 \<noteq> []" "list_all is_digit g1"
      "d = [] \<and> g2 = [] \<or> d = ''.'' \<and> list_all is_digit g2" and m: "m = [s, g1, g2]"
    by blast
  from dec(5) have dg2: "list_all is_digit g2" by auto
  have N: "NewVersion s =
     (case ParseUint g1 of Inl err \<Rightarrow> Inl (ParsingMajor err g1)
      | Inr major \<Rightarrow> if g2 = [] then Inr \<lparr>Major = major, Minor = 0\<rparr>
         else (case ParseUint g2 of Inl err \<Rightarrow> Inl (ParsingMinor err g2)
               | Inr minor \<Rightarrow> Inr \<lparr>Major = major, Minor = minor\<rparr>))"
    by (simp add: NewVersion_def f m)
  have P1: "ParseUint g1 =
      (if digits_val g1 \<le> maxVal then Inr (of_nat (digits_val g1)) else Inl ErrRange)"
    by (rule ParseUint_digits [OF dec(3,4)])
  from L N P1 have r1: "digits_val g1 \<le> maxVal"
    by (auto split: if_splits)
  have "digits_val g2 \<le> maxVal \<and> ver = \<lparr>Major = of_nat (digits_val g1), Minor = of_nat (digits_val g2)\<rparr>"
  proof (cases "g2 = []")
    case True
    with L N P1 r1 show ?thesis by (simp add: digits_val_def)
  next
    case False
    from L N P1 r1 False ParseUint_digits [OF False dg2] show ?thesis
      by (auto split: if_splits)
  qed
  with r1 dec show ?R
    unfolding maxVal_def by (intro exI [of _ p] exI [of _ g1] exI [of _ d] exI [of _ g2]) simp
next
  assume ?R
  then obtain p g1 d g2 where
    dec: "s = p @ g1 @ d @ g2" "p = [] \<or> p = ''v''" "g1 \<noteq> []" "list_all is_digit g1"
      "d = [] \<and> g2 = [] \<or> d = ''.'' \<and> list_all is_digit g2"
    and rng: "digits_val g1 < 2 ^ 64" "digits_val g2 < 2 ^ 64"
    and ver: "ver = \<lparr>Major = of_nat (digits_val g1), Minor = of_nat (digits_val g2)\<rparr>"
    by blast
  from dec(5) have dg2: "list_all is_digit g2" by auto
  have f: "FindAllStringSubmatch s = [[s, g1, g2]]"
    unfolding dec(1) by (rule submatch_complete [OF dec(2,3,4,5)])
  have P1: "ParseUint g1 = Inr (of_nat (digits_val g1))"
    using ParseUint_digits [OF dec(3,4)] rng(1) by (simp add: maxVal_def)
  show ?L
  proof (cases "g2 = []")
    case True
    then show ?thesis by (simp add: NewVersion_def f P1 ver digits_val_def)
  next
    case False
    have "ParseUint g2 = Inr (of_nat (digits_val g2))"
      using ParseUint_digits [OF False dg2] rng(2) by (simp add: maxVal_def)
    with False show ?thesis by (simp add: NewVersion_def f P1 ver)
  qed
qed

lemma digits_val_Nil: "digits_val [] = 0"
  by (simp add: digits_val_def)

subsection \<open>The claims about versions\<close>

text \<open>
  C7. \<open>IsSupersetOf supported required\<close> is true exactly when either the supported
  major is 0 and the two versions are equal, or the supported major is not 0, the majors
  are equal and the supported minor is at least the required minor. The five examples of
  the claim are evaluated as well.
\<close>

theorem IsSupersetOf_rule:
  "(IsSupersetOf supported required \<longleftrightarrow>
      (Major supported = 0 \<and> supported = required) \<or>
      (Major supported \<noteq> 0 \<and> Major supported = Major required \<and>
       Minor supported \<ge> Minor required)) \<and>
   IsSupersetOf \<lparr>Major = 0, Minor = 0\<rparr> \<lparr>Major = 0, Minor = 0\<rparr> \<and>
   \<not> IsSupersetOf \<lparr>Major = 0, Minor = 1\<rparr> \<lparr>Major = 0, Minor = 2\<rparr> \<and>
   IsSupersetOf \<lparr>Major = 1, Minor = 5\<rparr> \<lparr>Major = 1, Minor = 3\<rparr> \<and>
   \<not> IsSupersetOf \<lparr>Major = 1, Minor = 3\<rparr> \<lparr>Major = 1, Minor = 5\<rparr> \<and>
   \<not> IsSupersetOf \<lparr>Major = 2, Minor = 0\<rparr> \<lparr>Major = 1, Minor = 0\<rparr>"
proof -
  have general: "IsSupersetOf supported required \<longleftrightarrow>
      (Major supported = 0 \<and> supported = required) \<or>
      (Major supported \<noteq> 0 \<and> Major supported = Major required \<and>
       Minor supported \<ge> Minor required)"
    by (cases supported; cases required)
      (auto simp: IsSupersetOf_def Equal_def Compare_def word_gt_0)
  have examples: "IsSupersetOf \<lparr>Major = 0, Minor = 0\<rparr> \<lparr>Major = 0, Minor = 0\<rparr>"
    "\<not> IsSupersetOf \<lparr>Major = 0, Minor = 1\<rparr> \<lparr>Major = 0, Minor = 2\<rparr>"
    "IsSupersetOf \<lparr>Major = 1, Minor = 5\<rparr> \<lparr>Major = 1, Minor = 3\<rparr>"
    "\<not> IsSupersetOf \<lparr>Major = 1, Minor = 3\<rparr> \<lparr>Major = 1, Minor = 5\<rparr>"
    "\<not> IsSupersetOf \<lparr>Major = 2, Minor = 0\<rparr> \<lparr>Major = 1, Minor = 0\<rparr>"
    by (simp_all add: IsSupersetOf_def Equal_def Compare_def)
  from general examples show ?thesis by blast
qed

text \<open>
  C8, as stated, fails: a text of twenty digits has the form the claim describes, and
  \<open>NewVersion\<close> rejects it, because \<open>strconv.ParseUint\<close> reports a range error
  for a number that does not fit 64 bits and \<open>NewVersion\<close> returns that error.
\<close>

theorem NewVersion_digits_rejected:
  "list_all is_digit ''18446744073709551616'' \<and>
   NewVersion ''18446744073709551616'' =
     Inl (ParsingMajor ErrRange ''18446744073709551616'')"
  by (simp add: NewVersion_eval)

text \<open>
  C8, amended. \<open>NewVersion\<close> succeeds exactly on the texts made of an optional
  leading \<open>v\<close>, one or more digits and an optional minor segment (a dot followed by
  digits, possibly none) in which the digits of the major and those of the minor each
  denote a number below \<open>2 ^ 64\<close>; the result holds these two numbers, and a minor
  without digits is 0. The seven examples of the claim are evaluated as well.
\<close>

theorem NewVersion_succeeds_iff:
  "(NewVersion s = Inr ver \<longleftrightarrow>
      (\<exists>p g1 d g2. s = p @ g1 @ d @ g2 \<and> (p = [] \<or> p = ''v'') \<and> g1 \<noteq> [] \<and>
         list_all is_digit g1 \<and>
         (d = [] \<and> g2 = [] \<or> d = ''.'' \<and> list_all is_digit g2) \<and>
         digits_val g1 < 2 ^ 64 \<and> digits_val g2 < 2 ^ 64 \<and>
         ver = \<lparr>Major = of_nat (digits_val g1),
                 Minor = (if g2 = [] then 0 else of_nat (digits_val g2))\<rparr>)) \<and>
   NewVersion ''v1'' = Inr \<lparr>Major = 1, Minor = 0\<rparr> \<and>
   NewVersion ''1'' = Inr \<lparr>Major = 1, Minor = 0\<rparr> \<and>
   NewVersion ''1.2'' = Inr \<lparr>Major = 1, Minor = 2\<rparr> \<and>
   NewVersion ''v1.2'' = Inr \<lparr>Major = 1, Minor = 2\<rparr> \<and>
   NewVersion ''1.2.3'' = Inl (CouldNotParseAsVersion ''1.2.3'') \<and>
   NewVersion ''abc'' = Inl (CouldNotParseAsVersion ''abc'') \<and>
   NewVersion [] = Inl (CouldNotParseAsVersion [])"
proof -
  have minor: "(if g2 = [] then 0 else of_nat (digits_val g2)) = (of_nat (digits_val g2) :: 64 word)"
    for g2
    by (simp add: digits_val_Nil)
  have general: "NewVersion s = Inr ver \<longleftrightarrow>
      (\<exists>p g1 d g2. s = p @ g1 @ d @ g2 \<and> (p = [] \<or> p = ''v'') \<and> g1 \<noteq> [] \<and>
         list_all is_digit g1 \<and>
         (d = [] \<and> g2 = [] \<or> d = ''.'' \<and> list_all is_digit g2) \<and>
         digits_val g1 < 2 ^ 64 \<and> digits_val g2 < 2 ^ 64 \<and>
         ver = \<lparr>Major = of_nat (digits_val g1),
                 Minor = (if g2 = [] then 0 else of_nat (digits_val g2))\<rparr>)"
    unfolding minor by (rule NewVersion_decomposed)
  have accepted: "NewVersion ''v1'' = Inr \<lparr>Major = 1, Minor = 0\<rparr>"
    "NewVersion ''1'' = Inr \<lparr>Major = 1, Minor = 0\<rparr>"
    "NewVersion ''1.2'' = Inr \<lparr>Major = 1, Minor = 2\<rparr>"
    "NewVersion ''v1.2'' = Inr \<lparr>Major = 1, Minor = 2\<rparr>"
    by (simp_all add: NewVersion_eval)
  have rejected: "NewVersion ''1.2.3'' = Inl (CouldNotParseAsVersion ''1.2.3'')"
    "NewVersion ''abc'' = Inl (CouldNotParseAsVersion ''abc'')"
    "NewVersion [] = Inl (CouldNotParseAsVersion [])"
    by (simp_all add: NewVersion_eval)
  from general accepted rejected show ?thesis by (intro conjI)
qed

text \<open>
  C10. When \<open>NewVersion\<close> rejects the text, \<open>UnmarshalText\<close> returns an error and
  leaves the version as it was; when \<open>NewVersion\<close> accepts it, \<open>UnmarshalText\<close>
  returns nil and the version's major and minor are those of the parsed version. It
  fails in the first case only.
\<close>

theorem UnmarshalText_result:
  "(\<forall>err. NewVersion text = Inl err \<longrightarrow>
      UnmarshalText v text = (Some (InvalidApiVersion err text), v)) \<and>
   (\<forall>parsed. NewVersion text = Inr parsed \<longrightarrow>
      fst (UnmarshalText v text) = None \<and>
      Major (snd (UnmarshalText v text)) = Major parsed \<and>
      Minor (snd (UnmarshalText v text)) = Minor parsed) \<and>
   (fst (UnmarshalText v text) \<noteq> None \<longrightarrow>
      Major (snd (UnmarshalText v text)) = Major v \<and>
      Minor (snd (UnmarshalText v text)) = Minor v \<and>
      (\<exists>err. NewVersion text = Inl err))"
  by (cases "NewVersion text") (simp_all add: UnmarshalText_def)

theorem UnmarshalText_result_witness:
  "NewVersion ''abc'' = Inl (CouldNotParseAsVersion ''abc'') \<and>
   UnmarshalText \<lparr>Major = 7, Minor = 9\<rparr> ''abc'' =
     (Some (InvalidApiVersion (CouldNotParseAsVersion ''abc'') ''abc''),
      \<lparr>Major = 7, Minor = 9\<rparr>) \<and>
   NewVersion ''1.2'' = Inr \<lparr>Major = 1, Minor = 2\<rparr> \<and>
   fst (UnmarshalText \<lparr>Major = 7, Minor = 9\<rparr> ''1.2'') = None \<and>
   Major (snd (UnmarshalText \<lparr>Major = 7, Minor = 9\<rparr> ''1.2'')) = 1 \<and>
   Minor (snd (UnmarshalText \<lparr>Major = 7, Minor = 9\<rparr> ''1.2'')) = 2"
proof -
  have a: "NewVersion ''abc'' = Inl (CouldNotParseAsVersion ''abc'')"
    and b: "NewVersion ''1.2'' = Inr \<lparr>Major = 1, Minor = 2\<rparr>"
    by (simp_all add: NewVersion_eval)
  from a b
    UnmarshalText_result [of "''abc''" "\<lparr>Major = 7, Minor = 9\<rparr>"]
    UnmarshalText_result [of "''1.2''" "\<lparr>Major = 7, Minor = 9\<rparr>"]
  show ?thesis by simp
qed

section \<open>Properties of cmd/lifecycle/builder.go\<close>

subsection \<open>What each stage returns and records\<close>

lemma verify_each_code:
  "verify_each v bps = Some err \<Longrightarrow> \<exists>cause. err = FailErrCode cause CodeInvalidArgs []"
  by (induction bps) (auto split: if_splits)

lemma verifyBuildpackApis_code:
  "verifyBuildpackApis w g = Some err \<Longrightarrow> \<exists>cause. err = FailErrCode cause CodeInvalidArgs []"
  unfolding verifyBuildpackApis_def by (rule verify_each_code)

lemma createBuilder_trace: "snd (createBuilder w ba g sg p) = [EvNewKanikoSnapshotter ''/'']"
  by (simp add: createBuilder_def split: option.splits res.splits)

lemma stackBuild_trace: "snd (stackBuild w bl) = [EvStackBuild bl]"
  by (simp add: stackBuild_def split: option.splits)

lemma stackBuild_result:
  "fst (stackBuild w bl) = (case StackBuild w bl of None \<Rightarrow> OK () | Some err \<Rightarrow>
     Fail (FailErrCode (case err of LifecycleError t c \<Rightarrow> if t = ErrTypeBuildpack then c else err | _ \<Rightarrow> err)
       (if is_plugin_error err then CodeFailedBuildWithErrors else CodeBuildError) [Action ''stack-build'']))"
  by (simp add: stackBuild_def split: option.splits go_error.splits)

lemma buildAsSubProcess_trace:
  "snd (buildAsSubProcess w ba) =
     (case Executable w of Inl _ \<Rightarrow> [EvExecutable]
      | Inr exe \<Rightarrow> [EvExecutable, EvRun \<lparr>Path = Join (Dir exe) ''builder'',
           CmdArgs = [Flag FlagNameGroupPath, Val (groupPath ba), Flag FlagNamePlanPath, Val (planPath ba)],
           SysProcAttr_Credential = \<lparr>Uid = word_of_int (uid ba), Gid = word_of_int (gid ba)\<rparr>\<rparr>])"
  by (simp add: buildAsSubProcess_def Let_def split: sum.splits option.splits)

lemma buildAll_cases:
  "(\<exists>e. buildAll w ba g sg p = (Fail e, []) \<and> (verifyBuildpackApis w g = Some e \<or> verifyBuildpackApis w g = None \<and> verifyBuildpackApis w sg = Some e)) \<or>
   (\<exists>r. buildAll w ba g sg p = (r, [EvNewKanikoSnapshotter ''/'']) \<and> r \<noteq> OK ()) \<or>
   (\<exists>bl e. buildAll w ba g sg p = (fst (stackBuild w bl), [EvNewKanikoSnapshotter ''/'', EvStackBuild bl]) \<and> StackBuild w bl = Some e) \<or>
   (\<exists>bl. buildAll w ba g sg p = (OK (), [EvNewKanikoSnapshotter ''/'', EvStackBuild bl]) \<and> StackBuild w bl = None \<and> Group g = []) \<or>
   (\<exists>bl. buildAll w ba g sg p = (fst (buildAsSubProcess w ba), [EvNewKanikoSnapshotter ''/'', EvStackBuild bl] @ snd (buildAsSubProcess w ba)) \<and> StackBuild w bl = None \<and> Group g \<noteq> [])"
proof (cases "verifyBuildpackApis w g")
  case (Some e)
  then show ?thesis by (simp add: buildAll_def)
next
  case v1: None
  show ?thesis
  proof (cases "verifyBuildpackApis w sg")
    case (Some e)
    with v1 show ?thesis by (simp add: buildAll_def)
  next
    case v2: None
    obtain r t where cb: "createBuilder w ba g sg p = (r, t)" by (cases "createBuilder w ba g sg p")
    with createBuilder_trace [of w ba g sg p] have t: "t = [EvNewKanikoSnapshotter ''/'']" by simp
    show ?thesis
    proof (cases r)
      case (OK bl)
      obtain r2 t2 where sb: "stackBuild w bl = (r2, t2)" by (cases "stackBuild w bl")
      with stackBuild_trace [of w bl] have t2: "t2 = [EvStackBuild bl]" by simp
      show ?thesis
      proof (cases "StackBuild w bl")
        case None
        with sb have "r2 = OK ()" by (simp add: stackBuild_def)
        with v1 v2 cb t OK sb t2 None show ?thesis
          by (cases "buildAsSubProcess w ba") (simp add: buildAll_def)
      next
        case (Some e)
        with sb obtain e' where "r2 = Fail e'" by (auto simp: stackBuild_def)
        with v1 v2 cb t OK sb t2 Some show ?thesis
          by (simp add: buildAll_def)
      qed
    next
      case (Fail e)
      with v1 v2 cb t show ?thesis by (simp add: buildAll_def)
    next
      case (Panic e)
      with v1 v2 cb t show ?thesis by (simp add: buildAll_def)
    qed
  qed
qed

lemma Exec_stack:
  assumes "readData w b = (g, sg, p, None)" and "Group sg \<noteq> []"
  shows "Exec w b = buildAll w b g sg p"
  using assms by (simp add: Exec_def)

text \<open>
  With a stack group, the gate comes first: a plugin of either group that is not
  compatible makes \<open>buildAll\<close> return the invalid-arguments error before it has
  called anything.
\<close>

lemma buildAll_gate:
  assumes "verifyBuildpackApis w g = Some e \<or>
           verifyBuildpackApis w g = None \<and> verifyBuildpackApis w sg = Some e"
  shows "buildAll w ba g sg p = (Fail e, []) \<and> (\<exists>cause. e = FailErrCode cause CodeInvalidArgs [])"
  using assms verifyBuildpackApis_code [of w g e] verifyBuildpackApis_code [of w sg e]
  by (auto simp: buildAll_def)

subsection \<open>The example invocations, evaluated\<close>

lemmas example_defs =
  example_world_def unprivileged_world_def incompatible_world_def example_cmd_def
  example_files_def files_without_stack_group_def files_plan_only_def
  files_malformed_group_def example_app_group_def example_stack_group_def
  example_builder_def example_child_def empty_group_def empty_plan_def
  plugin_failure_def io_failure_def

lemmas readData_eval = readData_def Stat_def ReadGroup_def DecodeFile_def

lemmas Exec_eval =
  Exec_def buildAll_def buildAsSubProcess_def stackBuild_def createBuilder_def
  MustParse_def verifyBuildpackApis_def IsSupersetOf_def Equal_def Compare_def Let_def

lemma readData_example:
  "readData example_world example_cmd =
     (example_app_group, example_stack_group, BuildPlan ''plan'', None)"
  by (simp add: readData_eval example_defs)

lemma readData_unprivileged:
  "readData unprivileged_world example_cmd =
     (example_app_group, empty_group, BuildPlan ''plan'', None)"
  by (simp add: readData_eval example_defs)

lemma readData_incompatible:
  "readData incompatible_world example_cmd =
     (example_app_group, empty_group, BuildPlan ''plan'', None)"
  by (simp add: readData_eval example_defs)

lemma NewVersion_0_3: "NewVersion ''0.3'' = Inr \<lparr>Major = 0, Minor = 3\<rparr>"
  by (simp add: NewVersion_eval)

subsection \<open>The claims about the build\<close>

text \<open>
  C1. The claim asks for the version gate on every path. Without a stack group file
  \<open>Exec\<close> calls \<open>buildAsSubProcess\<close> at once: in the world where the app
  group's plugin is not compatible, \<open>verifyBuildpackApis\<close> would return the
  invalid-arguments error for the group that was read, and yet the command starts the
  child process and returns nil. Only \<open>buildAll\<close> calls the gate
  (\<open>buildAll_gate\<close>).
\<close>

theorem gate_skipped_without_stack_group:
  "verifyBuildpackApis incompatible_world example_app_group =
     Some (FailErrCode (IncompatibleBuildpackAPI ''example/app'') CodeInvalidArgs []) \<and>
   readData incompatible_world example_cmd =
     (example_app_group, empty_group, BuildPlan ''plan'', None) \<and>
   Privileges incompatible_world example_cmd = None \<and>
   Exec incompatible_world example_cmd = (OK (), [EvExecutable, EvRun example_child]) \<and>
   Run incompatible_world example_cmd 0 [] = (OK (), [EvExecutable, EvRun example_child])"
proof -
  have v: "verifyBuildpackApis incompatible_world example_app_group =
     Some (FailErrCode (IncompatibleBuildpackAPI ''example/app'') CodeInvalidArgs [])"
    by (simp add: verifyBuildpackApis_def IsSupersetOf_def Equal_def Compare_def example_defs)
  have p: "Privileges incompatible_world example_cmd = None"
    by (simp add: Privileges_def readData_incompatible) (simp add: example_defs)
  have e: "Exec incompatible_world example_cmd = (OK (), [EvExecutable, EvRun example_child])"
    by (simp add: Exec_def readData_incompatible) (simp add: buildAsSubProcess_def example_defs)
  have r: "Run incompatible_world example_cmd 0 [] = (OK (), [EvExecutable, EvRun example_child])"
    by (simp add: Run_def Args_def p e)
  from v readData_incompatible p e r show ?thesis by (intro conjI)
qed

text \<open>
  C2. The claim asks, for an unprivileged process without a stack group, for the
  privilege drop, the user's environment, the build and the metadata file in this
  process. \<open>Exec\<close> starts the child process instead and does none of the four;
  they are what \<open>build\<close> does, which nothing calls.
\<close>

theorem app_build_delegated_without_stack_group:
  "readData unprivileged_world example_cmd =
     (example_app_group, empty_group, BuildPlan ''plan'', None) \<and>
   \<not> IsPrivileged unprivileged_world \<and>
   Exec unprivileged_world example_cmd = (OK (), [EvExecutable, EvRun example_child]) \<and>
   Run unprivileged_world example_cmd 0 [] = (OK (), [EvExecutable, EvRun example_child]) \<and>
   build unprivileged_world example_cmd example_builder =
     (OK (), [EvRunAs 1000 1000, EvSetEnvironmentForUser 1000, EvBuild example_builder,
              EvWriteTOML (GetMetadataFilePath ''/layers'') (BuildMetadata ''metadata'')])"
proof -
  have i: "\<not> IsPrivileged unprivileged_world"
    by (simp add: example_defs)
  have p: "Privileges unprivileged_world example_cmd = None"
    by (simp add: Privileges_def readData_unprivileged) (simp add: example_defs)
  have e: "Exec unprivileged_world example_cmd = (OK (), [EvExecutable, EvRun example_child])"
    by (simp add: Exec_def readData_unprivileged) (simp add: buildAsSubProcess_def example_defs)
  have r: "Run unprivileged_world example_cmd 0 [] = (OK (), [EvExecutable, EvRun example_child])"
    by (simp add: Run_def Args_def p e)
  have b: "build unprivileged_world example_cmd example_builder =
     (OK (), [EvRunAs 1000 1000, EvSetEnvironmentForUser 1000, EvBuild example_builder,
              EvWriteTOML (GetMetadataFilePath ''/layers'') (BuildMetadata ''metadata'')])"
    by (simp add: build_def example_defs)
  from readData_unprivileged i e r b show ?thesis by (intro conjI)
qed

text \<open>
  C3. When the inputs are read without error, the stack group is empty and the process
  is privileged, \<open>Privileges\<close> returns the error "refusing to run as root", and
  the command ends with that error having called nothing: no plugin has run.
\<close>

theorem privileged_without_stack_refused:
  assumes "readData w b = (g, sg, p, None)" and "Group sg = []" and "IsPrivileged w"
  shows "Privileges w b = Some (FailErr (ErrorsNew ''refusing to run as root'') [Action ''build'']) \<and>
         Run w b 0 [] =
           (Fail (FailErr (ErrorsNew ''refusing to run as root'') [Action ''build'']), []) \<and>
         filter is_plugin_execution (snd (Run w b 0 [])) = []"
  using assms by (simp add: Privileges_def Run_def Args_def)

theorem privileged_without_stack_refused_witness:
  "readData (example_world\<lparr>files := files_without_stack_group\<rparr>) example_cmd =
     (example_app_group, empty_group, BuildPlan ''plan'', None) \<and>
   Group empty_group = [] \<and>
   IsPrivileged (example_world\<lparr>files := files_without_stack_group\<rparr>) \<and>
   Privileges (example_world\<lparr>files := files_without_stack_group\<rparr>) example_cmd =
     Some (FailErr (ErrorsNew ''refusing to run as root'') [Action ''build'']) \<and>
   Run (example_world\<lparr>files := files_without_stack_group\<rparr>) example_cmd 0 [] =
     (Fail (FailErr (ErrorsNew ''refusing to run as root'') [Action ''build'']), [])"
proof -
  let ?w = "example_world\<lparr>files := files_without_stack_group\<rparr>"
  have rd: "readData ?w example_cmd = (example_app_group, empty_group, BuildPlan ''plan'', None)"
    by (simp add: readData_eval example_defs)
  have e: "Group empty_group = []"
    by (simp add: empty_group_def)
  have i: "IsPrivileged ?w"
    by (simp add: example_world_def)
  from rd e i privileged_without_stack_refused [OF rd e i] show ?thesis
    by simp
qed

text \<open>
  C4. When the inputs are read without error and the stack group is not empty, nothing
  of the app build (neither \<open>Builder.Build\<close> nor the delegate and its child
  process) is called before the stack build has been called and has returned; and when
  the stack build that ran returned an error, the command returns the error of that
  stage, the stack build is the last call it made, and nothing of the app build was
  called.
\<close>

theorem stack_build_before_app_build:
  assumes rd: "readData w b = (g, sg, p, None)" and sg: "Group sg \<noteq> []"
  shows "list_all (\<lambda>e. \<not> is_app_build e \<and> e \<noteq> EvExecutable)
           (takeWhile (\<lambda>e. \<not> is_stack_build e) (snd (Exec w b))) \<and>
         (\<forall>bl err. EvStackBuild bl \<in> set (snd (Exec w b)) \<and> StackBuild w bl = Some err \<longrightarrow>
            fst (Exec w b) = fst (stackBuild w bl) \<and>
            (\<exists>e. fst (Exec w b) = Fail e) \<and>
            snd (Exec w b) = [EvNewKanikoSnapshotter ''/'', EvStackBuild bl] \<and>
            filter is_app_build (snd (Exec w b)) = [] \<and>
            EvExecutable \<notin> set (snd (Exec w b)))"
proof -
  note E = Exec_stack [OF rd sg]
  from buildAll_cases [of w b g sg p] show ?thesis
    unfolding E
    by (elim disjE exE conjE)
      (auto simp: stackBuild_result buildAsSubProcess_trace split: sum.splits)
qed

theorem stack_build_before_app_build_witness:
  "readData (example_world\<lparr>StackBuild := \<lambda>_. Some plugin_failure\<rparr>) example_cmd =
     (example_app_group, example_stack_group, BuildPlan ''plan'', None) \<and>
   Group example_stack_group \<noteq> [] \<and>
   StackBuild (example_world\<lparr>StackBuild := \<lambda>_. Some plugin_failure\<rparr>) example_builder =
     Some plugin_failure \<and>
   snd (Exec (example_world\<lparr>StackBuild := \<lambda>_. Some plugin_failure\<rparr>) example_cmd) =
     [EvNewKanikoSnapshotter ''/'', EvStackBuild example_builder] \<and>
   fst (Exec (example_world\<lparr>StackBuild := \<lambda>_. Some plugin_failure\<rparr>) example_cmd) =
     Fail (FailErrCode (External ''exit status 1'') CodeFailedBuildWithErrors
             [Action ''stack-build'']) \<and>
   filter is_app_build
     (snd (Exec (example_world\<lparr>StackBuild := \<lambda>_. Some plugin_failure\<rparr>) example_cmd)) = []"
proof -
  let ?w = "example_world\<lparr>StackBuild := \<lambda>_. Some plugin_failure\<rparr>"
  have rd: "readData ?w example_cmd =
      (example_app_group, example_stack_group, BuildPlan ''plan'', None)"
    by (simp add: readData_eval example_defs)
  have ne: "Group example_stack_group \<noteq> []"
    by (simp add: example_stack_group_def)
  have sb: "StackBuild ?w example_builder = Some plugin_failure"
    by (simp add: example_world_def)
  have t: "snd (Exec ?w example_cmd) = [EvNewKanikoSnapshotter ''/'', EvStackBuild example_builder]"
    by (simp add: Exec_def rd ne) (simp add: Exec_eval NewVersion_0_3 example_defs)
  from stack_build_before_app_build [OF rd ne] sb t
  have "fst (Exec ?w example_cmd) = fst (stackBuild ?w example_builder) \<and>
        filter is_app_build (snd (Exec ?w example_cmd)) = []"
    by simp
  moreover have "fst (stackBuild ?w example_builder) =
      Fail (FailErrCode (External ''exit status 1'') CodeFailedBuildWithErrors
              [Action ''stack-build''])"
    by (simp add: stackBuild_def example_world_def plugin_failure_def)
  ultimately show ?thesis using rd ne sb t by simp
qed

text \<open>
  C5, as stated, fails: the credential is \<open>uint32(ba.uid)\<close> and
  \<open>uint32(ba.gid)\<close>, so a configured id outside 0 to \<open>2 ^ 32 - 1\<close> does not
  reach the child as it is. With uid 4294968296 and gid 4294968297, both groups
  non-empty and a stack build that succeeds, the child is started with uid 1000 and gid
  1001.
\<close>

theorem delegate_credential_truncated:
  "readData example_world (example_cmd\<lparr>uid := 4294968296, gid := 4294968297\<rparr>) =
     (example_app_group, example_stack_group, BuildPlan ''plan'', None) \<and>
   StackBuild example_world example_builder = None \<and>
   Exec example_world (example_cmd\<lparr>uid := 4294968296, gid := 4294968297\<rparr>) =
     (OK (), [EvNewKanikoSnapshotter ''/'', EvStackBuild example_builder, EvExecutable,
              EvRun (example_child\<lparr>SysProcAttr_Credential := \<lparr>Uid = 1000, Gid = 1001\<rparr>\<rparr>)]) \<and>
   uint (1000 :: 32 word) \<noteq> uid (example_cmd\<lparr>uid := 4294968296, gid := 4294968297\<rparr>) \<and>
   uint (1001 :: 32 word) \<noteq> gid (example_cmd\<lparr>uid := 4294968296, gid := 4294968297\<rparr>)"
proof -
  let ?b = "example_cmd\<lparr>uid := 4294968296, gid := 4294968297\<rparr>"
  have rd: "readData example_world ?b =
      (example_app_group, example_stack_group, BuildPlan ''plan'', None)"
    by (simp add: readData_eval example_defs)
  have sb: "StackBuild example_world example_builder = None"
    by (simp add: example_world_def)
  have ne: "Group example_stack_group \<noteq> []" "Group example_app_group \<noteq> []"
    by (simp_all add: example_stack_group_def example_app_group_def)
  have w: "(word_of_int 4294968296 :: 32 word) = 1000" "(word_of_int 4294968297 :: 32 word) = 1001"
    by simp_all
  have e: "Exec example_world ?b =
     (OK (), [EvNewKanikoSnapshotter ''/'', EvStackBuild example_builder, EvExecutable,
              EvRun (example_child\<lparr>SysProcAttr_Credential := \<lparr>Uid = 1000, Gid = 1001\<rparr>\<rparr>)])"
    by (simp add: Exec_def rd ne) (simp add: Exec_eval NewVersion_0_3 example_defs)
  have u: "uint (1000 :: 32 word) \<noteq> uid ?b" "uint (1001 :: 32 word) \<noteq> gid ?b"
    by (simp_all add: example_cmd_def)
  from rd sb e u show ?thesis by (intro conjI)
qed

text \<open>
  C5, amended. When the inputs are read without error, neither group is empty and the
  stack build ran and returned nil, the delegate runs once: it asks for the executable
  once and, unless that fails, starts one child process, whose credential holds the
  configured uid and gid converted to 32 bits unsigned (the same numbers when they lie
  between 0 and \<open>2 ^ 32 - 1\<close>); the process itself never calls \<open>RunAs\<close>.
\<close>

theorem delegate_once_with_credential:
  assumes rd: "readData w b = (g, sg, p, None)" and sg: "Group sg \<noteq> []" and g: "Group g \<noteq> []"
    and ran: "EvStackBuild bl \<in> set (snd (Exec w b))" and ok: "StackBuild w bl = None"
  shows "length (filter (\<lambda>e. e = EvExecutable) (snd (Exec w b))) = 1 \<and>
         filter is_subprocess (snd (Exec w b)) =
           (case Executable w of
              Inl _ \<Rightarrow> []
            | Inr exe \<Rightarrow>
                [EvRun \<lparr>Path = Join (Dir exe) ''builder'',
                        CmdArgs = [Flag FlagNameGroupPath, Val (groupPath b),
                                   Flag FlagNamePlanPath, Val (planPath b)],
                        SysProcAttr_Credential =
                          \<lparr>Uid = word_of_int (uid b), Gid = word_of_int (gid b)\<rparr>\<rparr>]) \<and>
         filter is_privilege_drop (snd (Exec w b)) = [] \<and>
         (0 \<le> uid b \<and> uid b < 2 ^ 32 \<longrightarrow> uint (word_of_int (uid b) :: 32 word) = uid b) \<and>
         (0 \<le> gid b \<and> gid b < 2 ^ 32 \<longrightarrow> uint (word_of_int (gid b) :: 32 word) = gid b)"
proof -
  note E = Exec_stack [OF rd sg]
  have conv: "0 \<le> i \<and> i < 2 ^ 32 \<longrightarrow> uint (word_of_int i :: 32 word) = i" for i :: int
    by (simp add: uint_word_of_int take_bit_int_eq_self)
  from buildAll_cases [of w b g sg p] ran ok g
  have "length (filter (\<lambda>e. e = EvExecutable) (snd (Exec w b))) = 1 \<and>
         filter is_subprocess (snd (Exec w b)) =
           (case Executable w of
              Inl _ \<Rightarrow> []
            | Inr exe \<Rightarrow>
                [EvRun \<lparr>Path = Join (Dir exe) ''builder'',
                        CmdArgs = [Flag FlagNameGroupPath, Val (groupPath b),
                                   Flag FlagNamePlanPath, Val (planPath b)],
                        SysProcAttr_Credential =
                          \<lparr>Uid = word_of_int (uid b), Gid = word_of_int (gid b)\<rparr>\<rparr>]) \<and>
         filter is_privilege_drop (snd (Exec w b)) = []"
    unfolding E
    by (elim disjE exE conjE)
      (auto simp: buildAsSubProcess_trace split: sum.splits)
  with conv show ?thesis by blast
qed

theorem delegate_once_with_credential_witness:
  "readData example_world example_cmd =
     (example_app_group, example_stack_group, BuildPlan ''plan'', None) \<and>
   Group example_stack_group \<noteq> [] \<and> Group example_app_group \<noteq> [] \<and>
   StackBuild example_world example_builder = None \<and>
   snd (Exec example_world example_cmd) =
     [EvNewKanikoSnapshotter ''/'', EvStackBuild example_builder, EvExecutable,
      EvRun example_child] \<and>
   length (filter (\<lambda>e. e = EvExecutable) (snd (Exec example_world example_cmd))) = 1 \<and>
   filter is_subprocess (snd (Exec example_world example_cmd)) = [EvRun example_child] \<and>
   filter is_privilege_drop (snd (Exec example_world example_cmd)) = [] \<and>
   uint (Uid (SysProcAttr_Credential example_child)) = uid example_cmd \<and>
   uint (Gid (SysProcAttr_Credential example_child)) = gid example_cmd"
proof -
  have ne: "Group example_stack_group \<noteq> []" "Group example_app_group \<noteq> []"
    by (simp_all add: example_stack_group_def example_app_group_def)
  have sb: "StackBuild example_world example_builder = None"
    by (simp add: example_world_def)
  have t: "snd (Exec example_world example_cmd) =
     [EvNewKanikoSnapshotter ''/'', EvStackBuild example_builder, EvExecutable,
      EvRun example_child]"
    by (simp add: Exec_def readData_example ne) (simp add: Exec_eval NewVersion_0_3 example_defs)
  have ran: "EvStackBuild example_builder \<in> set (snd (Exec example_world example_cmd))"
    by (simp add: t)
  have ex: "Executable example_world = Inr ''/cnb/lifecycle/builder''"
    by (simp add: example_world_def)
  have c: "\<lparr>Path = Join (Dir ''/cnb/lifecycle/builder'') ''builder'',
        CmdArgs = [Flag FlagNameGroupPath, Val (groupPath example_cmd),
                   Flag FlagNamePlanPath, Val (planPath example_cmd)],
        SysProcAttr_Credential =
          \<lparr>Uid = word_of_int (uid example_cmd), Gid = word_of_int (gid example_cmd)\<rparr>\<rparr> =
      example_child"
    by (simp add: example_child_def example_cmd_def)
  from delegate_once_with_credential [OF readData_example ne ran sb]
  have main: "length (filter (\<lambda>e. e = EvExecutable) (snd (Exec example_world example_cmd))) = 1"
    "filter is_subprocess (snd (Exec example_world example_cmd)) = [EvRun example_child]"
    "filter is_privilege_drop (snd (Exec example_world example_cmd)) = []"
    by (simp_all add: ex c)
  have u: "uint (Uid (SysProcAttr_Credential example_child)) = uid example_cmd"
    "uint (Gid (SysProcAttr_Credential example_child)) = gid example_cmd"
    by (simp_all add: example_child_def example_cmd_def)
  from readData_example ne sb t main u show ?thesis by (intro conjI)
qed

text \<open>
  C6, as stated, fails: in the app-build stage a failure that is not the plugin's is
  not always given the code "build error". When the privilege drop fails with an
  input/output error, \<open>build\<close> wraps it with \<open>cmd.FailErr\<close> and the action
  "exec as user", which names neither of the two codes.
\<close>

theorem privilege_drop_failure_unclassified:
  "\<not> is_plugin_error io_failure \<and>
   build (example_world\<lparr>RunAs := \<lambda>_ _. Some io_failure\<rparr>) example_cmd example_builder =
     (Fail (FailErr io_failure [ExecAsUser 1000 1000]), [EvRunAs 1000 1000]) \<and>
   exit_code_of (fst (build (example_world\<lparr>RunAs := \<lambda>_ _. Some io_failure\<rparr>) example_cmd
      example_builder)) \<noteq> Some CodeBuildError"
  by (simp add: build_def example_world_def example_cmd_def io_failure_def)

text \<open>
  C6, amended. In the stack-build stage and in the app-build stage alike, the error
  returned by the stage's build call (\<open>Builder.StackBuild\<close>, \<open>Builder.Build\<close>)
  maps to the code "failed build with errors" when it is a lifecycle error of the
  buildpack type and to the code "build error" otherwise, and the two codes differ. The
  other failures of the app build are given neither code: a failure of the privilege
  drop, of loading the user's environment or of writing the metadata is wrapped by
  \<open>cmd.FailErr\<close> with the action of that step, and a failure of the delegate
  (finding the executable, running the child process) is returned as it is.
\<close>

theorem failure_classification:
  "(StackBuild w builder = Some err \<longrightarrow>
      exit_code_of (fst (stackBuild w builder)) =
        Some (if is_plugin_error err then CodeFailedBuildWithErrors else CodeBuildError)) \<and>
   (RunAs w (uid ba) (gid ba) = None \<and> SetEnvironmentForUser w (uid ba) = None \<and>
    Build w builder = Inl err \<longrightarrow>
      exit_code_of (fst (build w ba builder)) =
        Some (if is_plugin_error err then CodeFailedBuildWithErrors else CodeBuildError)) \<and>
   CodeFailedBuildWithErrors \<noteq> CodeBuildError \<and>
   (RunAs w (uid ba) (gid ba) = Some err \<longrightarrow>
      fst (build w ba builder) = Fail (FailErr err [ExecAsUser (uid ba) (gid ba)])) \<and>
   (RunAs w (uid ba) (gid ba) = None \<and> SetEnvironmentForUser w (uid ba) = Some err \<longrightarrow>
      fst (build w ba builder) = Fail (FailErr err [SetEnvironmentFor (uid ba)])) \<and>
   (\<forall>md. RunAs w (uid ba) (gid ba) = None \<and> SetEnvironmentForUser w (uid ba) = None \<and>
      Build w builder = Inr md \<and>
      WriteTOML w (GetMetadataFilePath (layersDir ba)) md = Some err \<longrightarrow>
      fst (build w ba builder) = Fail (FailErr err [Action ''write build metadata''])) \<and>
   (Executable w = Inl err \<longrightarrow> fst (buildAsSubProcess w ba) = Fail err) \<and>
   (\<forall>c. EvRun c \<in> set (snd (buildAsSubProcess w ba)) \<and> CmdRun w c = Some err \<longrightarrow>
      fst (buildAsSubProcess w ba) = Fail err)"
proof -
  have classified: "(StackBuild w builder = Some err \<longrightarrow>
      exit_code_of (fst (stackBuild w builder)) =
        Some (if is_plugin_error err then CodeFailedBuildWithErrors else CodeBuildError)) \<and>
   (RunAs w (uid ba) (gid ba) = None \<and> SetEnvironmentForUser w (uid ba) = None \<and>
    Build w builder = Inl err \<longrightarrow>
      exit_code_of (fst (build w ba builder)) =
        Some (if is_plugin_error err then CodeFailedBuildWithErrors else CodeBuildError)) \<and>
   CodeFailedBuildWithErrors \<noteq> CodeBuildError"
    by (cases err) (simp_all add: stackBuild_def build_def)
  have wrapped: "(RunAs w (uid ba) (gid ba) = Some err \<longrightarrow>
      fst (build w ba builder) = Fail (FailErr err [ExecAsUser (uid ba) (gid ba)])) \<and>
   (RunAs w (uid ba) (gid ba) = None \<and> SetEnvironmentForUser w (uid ba) = Some err \<longrightarrow>
      fst (build w ba builder) = Fail (FailErr err [SetEnvironmentFor (uid ba)])) \<and>
   (\<forall>md. RunAs w (uid ba) (gid ba) = None \<and> SetEnvironmentForUser w (uid ba) = None \<and>
      Build w builder = Inr md \<and>
      WriteTOML w (GetMetadataFilePath (layersDir ba)) md = Some err \<longrightarrow>
      fst (build w ba builder) = Fail (FailErr err [Action ''write build metadata'']))"
    by (simp add: build_def)
  have delegate: "(Executable w = Inl err \<longrightarrow> fst (buildAsSubProcess w ba) = Fail err) \<and>
   (\<forall>c. EvRun c \<in> set (snd (buildAsSubProcess w ba)) \<and> CmdRun w c = Some err \<longrightarrow>
      fst (buildAsSubProcess w ba) = Fail err)"
    by (auto simp: buildAsSubProcess_def Let_def split: sum.splits option.splits)
  from classified wrapped delegate show ?thesis by blast
qed

theorem failure_classification_witness:
  "exit_code_of (fst (stackBuild (example_world\<lparr>StackBuild := \<lambda>_. Some plugin_failure\<rparr>)
      example_builder)) = Some CodeFailedBuildWithErrors \<and>
   exit_code_of (fst (stackBuild (example_world\<lparr>StackBuild := \<lambda>_. Some io_failure\<rparr>)
      example_builder)) = Some CodeBuildError \<and>
   exit_code_of (fst (build (example_world\<lparr>Build := \<lambda>_. Inl plugin_failure\<rparr>)
      example_cmd example_builder)) = Some CodeFailedBuildWithErrors \<and>
   exit_code_of (fst (build (example_world\<lparr>Build := \<lambda>_. Inl io_failure\<rparr>)
      example_cmd example_builder)) = Some CodeBuildError \<and>
   fst (build (example_world\<lparr>RunAs := \<lambda>_ _. Some io_failure\<rparr>) example_cmd example_builder) =
     Fail (FailErr io_failure [ExecAsUser 1000 1000]) \<and>
   fst (build (example_world\<lparr>SetEnvironmentForUser := \<lambda>_. Some io_failure\<rparr>) example_cmd
      example_builder) = Fail (FailErr io_failure [SetEnvironmentFor 1000]) \<and>
   fst (build (example_world\<lparr>WriteTOML := \<lambda>_ _. Some io_failure\<rparr>) example_cmd
      example_builder) = Fail (FailErr io_failure [Action ''write build metadata'']) \<and>
   fst (buildAsSubProcess (example_world\<lparr>Executable := Inl io_failure\<rparr>) example_cmd) =
     Fail io_failure \<and>
   fst (buildAsSubProcess (example_world\<lparr>CmdRun := \<lambda>_. Some io_failure\<rparr>) example_cmd) =
     Fail io_failure"
proof -
  let ?sp = "example_world\<lparr>StackBuild := \<lambda>_. Some plugin_failure\<rparr>"
  let ?si = "example_world\<lparr>StackBuild := \<lambda>_. Some io_failure\<rparr>"
  let ?bp = "example_world\<lparr>Build := \<lambda>_. Inl plugin_failure\<rparr>"
  let ?bi = "example_world\<lparr>Build := \<lambda>_. Inl io_failure\<rparr>"
  let ?ra = "example_world\<lparr>RunAs := \<lambda>_ _. Some io_failure\<rparr>"
  let ?se = "example_world\<lparr>SetEnvironmentForUser := \<lambda>_. Some io_failure\<rparr>"
  let ?wt = "example_world\<lparr>WriteTOML := \<lambda>_ _. Some io_failure\<rparr>"
  let ?ex = "example_world\<lparr>Executable := Inl io_failure\<rparr>"
  let ?cr = "example_world\<lparr>CmdRun := \<lambda>_. Some io_failure\<rparr>"
  have ids: "uid example_cmd = 1000" "gid example_cmd = 1000" "layersDir example_cmd = ''/layers''"
    by (simp_all add: example_cmd_def)
  have kinds: "is_plugin_error plugin_failure" "\<not> is_plugin_error io_failure"
    by (simp_all add: plugin_failure_def io_failure_def)
  have c1: "exit_code_of (fst (stackBuild ?sp example_builder)) = Some CodeFailedBuildWithErrors"
    using failure_classification [where w = ?sp and builder = example_builder
        and err = plugin_failure and ba = example_cmd] kinds
    by (simp add: example_world_def)
  have c2: "exit_code_of (fst (stackBuild ?si example_builder)) = Some CodeBuildError"
    using failure_classification [where w = ?si and builder = example_builder
        and err = io_failure and ba = example_cmd] kinds
    by (simp add: example_world_def)
  have c3: "exit_code_of (fst (build ?bp example_cmd example_builder)) =
      Some CodeFailedBuildWithErrors"
    using failure_classification [where w = ?bp and builder = example_builder
        and err = plugin_failure and ba = example_cmd] kinds
    by (simp add: example_world_def)
  have c4: "exit_code_of (fst (build ?bi example_cmd example_builder)) = Some CodeBuildError"
    using failure_classification [where w = ?bi and builder = example_builder
        and err = io_failure and ba = example_cmd] kinds
    by (simp add: example_world_def)
  have c5: "fst (build ?ra example_cmd example_builder) =
      Fail (FailErr io_failure [ExecAsUser 1000 1000])"
    using failure_classification [where w = ?ra and builder = example_builder
        and err = io_failure and ba = example_cmd]
    by (simp add: example_world_def ids)
  have c6: "fst (build ?se example_cmd example_builder) =
      Fail (FailErr io_failure [SetEnvironmentFor 1000])"
    using failure_classification [where w = ?se and builder = example_builder
        and err = io_failure and ba = example_cmd]
    by (simp add: example_world_def ids)
  have c7: "fst (build ?wt example_cmd example_builder) =
      Fail (FailErr io_failure [Action ''write build metadata''])"
    using failure_classification [where w = ?wt and builder = example_builder
        and err = io_failure and ba = example_cmd]
    by (simp add: example_world_def ids)
  have c8: "fst (buildAsSubProcess ?ex example_cmd) = Fail io_failure"
    using failure_classification [where w = ?ex and builder = example_builder
        and err = io_failure and ba = example_cmd]
    by (simp add: example_world_def)
  have run: "EvRun example_child \<in> set (snd (buildAsSubProcess ?cr example_cmd))"
    by (simp add: buildAsSubProcess_def example_defs)
  have failed: "CmdRun ?cr example_child = Some io_failure"
    by (simp add: example_world_def)
  have c9: "fst (buildAsSubProcess ?cr example_cmd) = Fail io_failure"
    using failure_classification [where w = ?cr and builder = example_builder
        and err = io_failure and ba = example_cmd] run failed
    by blast
  from c1 c2 c3 c4 c5 c6 c7 c8 c9 show ?thesis by (intro conjI)
qed

text \<open>
  C9. \<open>readData\<close> fails when the plan file is missing or does not decode, and
  when a group file that is there does not decode. When the plan decodes and each group
  file is either missing or decodes, it returns without error, with the empty group for
  a missing file and the decoded group otherwise.
\<close>

theorem readData_groups_optional_plan_required:
  "(files w (planPath b) = None \<longrightarrow> (\<exists>e. snd (snd (snd (readData w b))) = Some e)) \<and>
   (\<forall>c e. files w (planPath b) = Some c \<and> decode_plan w c = Inl e \<longrightarrow>
      (\<exists>e'. snd (snd (snd (readData w b))) = Some e')) \<and>
   (\<forall>c e. files w (groupPath b) = Some c \<and> decode_group w c = Inl e \<longrightarrow>
      snd (snd (snd (readData w b))) = Some (FailErr e [Action ''read buildpack group''])) \<and>
   (\<forall>c e. files w (stackGroupPath b) = Some c \<and> decode_group w c = Inl e \<longrightarrow>
      (\<exists>e'. snd (snd (snd (readData w b))) = Some e')) \<and>
   (\<forall>c p g sg.
      files w (planPath b) = Some c \<and> decode_plan w c = Inr p \<and>
      (files w (groupPath b) = None \<and> g = empty_group \<or>
       (\<exists>cg. files w (groupPath b) = Some cg \<and> decode_group w cg = Inr g)) \<and>
      (files w (stackGroupPath b) = None \<and> sg = empty_group \<or>
       (\<exists>cs. files w (stackGroupPath b) = Some cs \<and> decode_group w cs = Inr sg)) \<longrightarrow>
      readData w b = (g, sg, p, None))"
proof (intro conjI allI impI)
  assume "files w (planPath b) = None"
  then show "\<exists>e. snd (snd (snd (readData w b))) = Some e"
    by (simp add: readData_eval split: sum.splits)
next
  fix c e assume "files w (planPath b) = Some c \<and> decode_plan w c = Inl e"
  then show "\<exists>e'. snd (snd (snd (readData w b))) = Some e'"
    by (simp add: readData_eval split: sum.splits)
next
  fix c e assume "files w (groupPath b) = Some c \<and> decode_group w c = Inl e"
  then show "snd (snd (snd (readData w b))) = Some (FailErr e [Action ''read buildpack group''])"
    by (simp add: readData_eval)
next
  fix c e assume "files w (stackGroupPath b) = Some c \<and> decode_group w c = Inl e"
  then show "\<exists>e'. snd (snd (snd (readData w b))) = Some e'"
    by (simp add: readData_eval split: sum.splits)
next
  fix c p g sg
  assume "files w (planPath b) = Some c \<and> decode_plan w c = Inr p \<and>
      (files w (groupPath b) = None \<and> g = empty_group \<or>
       (\<exists>cg. files w (groupPath b) = Some cg \<and> decode_group w cg = Inr g)) \<and>
      (files w (stackGroupPath b) = None \<and> sg = empty_group \<or>
       (\<exists>cs. files w (stackGroupPath b) = Some cs \<and> decode_group w cs = Inr sg))"
  then show "readData w b = (g, sg, p, None)"
    by (auto simp: readData_eval)
qed

theorem readData_groups_optional_plan_required_witness:
  "readData (example_world\<lparr>files := files_plan_only\<rparr>) example_cmd =
     (empty_group, empty_group, BuildPlan ''plan'', None) \<and>
   readData (example_world\<lparr>files := files_without_stack_group\<rparr>) example_cmd =
     (example_app_group, empty_group, BuildPlan ''plan'', None) \<and>
   snd (snd (snd (readData (example_world\<lparr>files := files_malformed_group\<rparr>) example_cmd))) =
     Some (FailErr (External ''malformed group'') [Action ''read buildpack group'']) \<and>
   (\<exists>e. snd (snd (snd (readData (example_world\<lparr>files := \<lambda>_. None\<rparr>) example_cmd))) = Some e)"
  using
    readData_groups_optional_plan_required [of "example_world\<lparr>files := files_plan_only\<rparr>" example_cmd]
    readData_groups_optional_plan_required [of "example_world\<lparr>files := files_without_stack_group\<rparr>" example_cmd]
    readData_groups_optional_plan_required [of "example_world\<lparr>files := files_malformed_group\<rparr>" example_cmd]
    readData_groups_optional_plan_required [of "example_world\<lparr>files := \<lambda>_. None\<rparr>" example_cmd]
  by (simp add: example_defs)

end
